theory Spec2Isabelle
  imports Main "HOL-Library.Sublist"
begin

section \<open>Select entities for Proxmox VE HA resource state management\<close>

text \<open>
  A shallow embedding of \<^verbatim>\<open>custom_components/proxmoxve/select.py\<close>. Python
  strings are \<^typ>\<open>string\<close>, dictionaries are maps, \<^verbatim>\<open>None\<close> is
  \<^const>\<open>None\<close>, an exception is a value on the left of a sum, and the calls
  the module makes on its collaborators are recorded, in order, in a list.
\<close>

subsection \<open>Data model\<close>

text \<open>Loosely typed values of an API response (what the JSON decoder hands over).\<close>

datatype json =
    JNull
  | JBool bool
  | JInt int
  | JStr string
  | JList "json list"
  | JDict "(string \<times> json) list"

text \<open>
  Modelled from the spec: the dataclass \<^verbatim>\<open>ProxmoxHAResourceData\<close> of
  \<^verbatim>\<open>models.py\<close>, which is not among the sources. The fields and their
  order are those the tests construct it with; \<^verbatim>\<open>state\<close> is a string, the
  other metadata is optional and passed through.
\<close>

record ProxmoxHAResourceData =
  sid :: string
  type :: string
  vmid :: int
  state :: string
  group :: "json option"
  status :: "json option"
  request_state :: "json option"
  max_relocate :: "json option"
  max_restart :: "json option"
  digest :: "json option"

type_synonym snapshot = "string \<rightharpoonup> ProxmoxHAResourceData"

text \<open>
  What this module reads of a coordinator object: its \<^verbatim>\<open>data\<close> (\<^verbatim>\<open>None\<close>
  before the first successful poll) and \<^verbatim>\<open>last_update_success\<close>. The
  per-resource coordinators of the runtime mapping are objects of other classes; the
  module only tests whether their key is present, so one record serves for all.
\<close>

record coordinator =
  data :: "snapshot option"
  last_update_success :: bool

text \<open>
  The enumeration \<^verbatim>\<open>ProxmoxHAState\<close> lives in \<^verbatim>\<open>const.py\<close>, which is
  not among the sources. It is a parameter of the model: the list of its members in
  definition order, each a pair of member name and value.
\<close>

type_synonym enum = "(string \<times> string) list"

text \<open>\<^verbatim>\<open>[state.value for state in ProxmoxHAState]\<close>\<close>

definition state_values :: "enum \<Rightarrow> string list" where
  "state_values ProxmoxHAState = map snd ProxmoxHAState"

text \<open>
  The string enumeration \<^verbatim>\<open>ProxmoxType\<close> is in \<^verbatim>\<open>const.py\<close> too; the
  three members this module formats into keys are taken as parameters.
\<close>

record ProxmoxType =
  QEMU :: string
  LXC :: string
  Resources :: string

record ProxmoxSelectEntityDescription =
  key :: string
  icon :: string
  name :: string
  translation_key :: string
  options :: "string list"

definition PROXMOX_SELECT_HA_STATE :: "enum \<Rightarrow> ProxmoxSelectEntityDescription" where
  "PROXMOX_SELECT_HA_STATE ProxmoxHAState =
     \<lparr> key = ''ha_state'',
       icon = ''mdi:shield-sync'',
       name = ''HA state'',
       translation_key = ''ha_state'',
       options = state_values ProxmoxHAState \<rparr>"

text \<open>
  \<^verbatim>\<open>ProxmoxHASelectEntity\<close>. The entity keeps a reference to the shared HA
  coordinator and no copy of its data: every property below takes the coordinator's
  current state as an argument. \<^typ>\<open>'d\<close> is the device-registry metadata and
  \<^typ>\<open>'c\<close> the client handle, both built outside this module.
\<close>

record ('d, 'c) ProxmoxHASelectEntity =
  unique_id :: string
  entity_description :: ProxmoxSelectEntityDescription
  attr_device_info :: 'd
  proxmox_client :: 'c
  entity_sid :: string

subsection \<open>Properties\<close>

definition current_option :: "('d, 'c) ProxmoxHASelectEntity \<Rightarrow> coordinator \<Rightarrow> string option" where
  "current_option self coord =
     (case data coord of
        None \<Rightarrow> None
      | Some d \<Rightarrow>
          (case d (entity_sid self) of
             None \<Rightarrow> None
           | Some resource \<Rightarrow> Some (state resource)))"

text \<open>
  \<^verbatim>\<open>super().available\<close> is the base platform entity's availability, computed
  by classes outside this module; it is the first argument.
\<close>

definition available :: "bool \<Rightarrow> ('d, 'c) ProxmoxHASelectEntity \<Rightarrow> coordinator \<Rightarrow> bool" where
  "available super_available self coord =
     (super_available
      \<and> (case data coord of
            None \<Rightarrow> False
          | Some d \<Rightarrow> d (entity_sid self) \<noteq> None))"

subsection \<open>Selecting an option\<close>

text \<open>
  The exceptions the write call can raise, each with the text \<^verbatim>\<open>str(error)\<close>
  gives: proxmoxer's \<^verbatim>\<open>ResourceException\<close>, requests'
  \<^verbatim>\<open>ConnectTimeout\<close>, and anything else.
\<close>

datatype exn =
    ResourceException string
  | ConnectTimeout string
  | OtherException string

fun str :: "exn \<Rightarrow> string" where
  "str (ResourceException s) = s"
| "str (ConnectTimeout s) = s"
| "str (OtherException s) = s"

text \<open>
  What \<^verbatim>\<open>async_select_option\<close> can raise: a \<^verbatim>\<open>HomeAssistantError\<close>
  with its message and its \<^verbatim>\<open>__cause__\<close> (set by \<^verbatim>\<open>raise ... from error\<close>),
  or an exception of the write call that no handler catches.
\<close>

datatype error =
    HomeAssistantError string "exn option"
  | Uncaught exn

text \<open>The calls the method makes on its collaborators.\<close>

datatype 'a call =
    PutApi 'a string "(string \<times> string) list"
  | LogDebug string
  | RequestRefresh

text \<open>
  The collaborators: \<^verbatim>\<open>get_api_client\<close> of the client handle, and
  \<^verbatim>\<open>put_api\<close> of \<^verbatim>\<open>api.py\<close> (not among the sources), which
  returns (\<^const>\<open>None\<close>) or raises (\<^const>\<open>Some\<close>) for the API object, the
  path and the keyword arguments it is called with.
\<close>

record ('c, 'a) env =
  get_api_client :: "'c \<Rightarrow> 'a"
  put_api :: "'a \<Rightarrow> string \<Rightarrow> (string \<times> string) list \<Rightarrow> exn option"

text \<open>
  The state the method runs in: the shared HA coordinator and the calls made so far.
  A refresh request is a call on the coordinator's debouncer; the poll it leads to is
  the coordinator's own work.
\<close>

record 'a world =
  coordinator_state :: coordinator
  calls :: "'a call list"

definition async_select_option ::
  "('c, 'a) env \<Rightarrow> enum \<Rightarrow> ('d, 'c) ProxmoxHASelectEntity \<Rightarrow> string \<Rightarrow> 'a world
     \<Rightarrow> (error + unit) \<times> 'a world" where
  "async_select_option env ProxmoxHAState self option w =
     (if option \<notin> set (state_values ProxmoxHAState) then
        (Inl (HomeAssistantError (''Invalid HA state: '' @ option) None), w)
      else
        let proxmox = get_api_client env (proxmox_client self);
            api_path = ''cluster/ha/resources/'' @ entity_sid self;
            w1 = w\<lparr>calls := calls w @ [PutApi proxmox api_path [(''state'', option)]]\<rparr>
        in
          case put_api env proxmox api_path [(''state'', option)] of
            Some (ResourceException e) \<Rightarrow>
              (Inl (HomeAssistantError
                      (''Failed to set HA state for '' @ entity_sid self @ '' to '' @ option
                         @ '': '' @ str (ResourceException e))
                      (Some (ResourceException e))), w1)
          | Some (ConnectTimeout e) \<Rightarrow>
              (Inl (HomeAssistantError
                      (''Timeout setting HA state for '' @ entity_sid self
                         @ '': '' @ str (ConnectTimeout e))
                      (Some (ConnectTimeout e))), w1)
          | Some (OtherException e) \<Rightarrow> (Inl (Uncaught (OtherException e)), w1)
          | None \<Rightarrow>
              (Inr (),
               w1\<lparr>calls := calls w1
                    @ [LogDebug (''Set HA state for '' @ entity_sid self @ '' to '' @ option),
                       RequestRefresh]\<rparr>))"

subsection \<open>Platform setup\<close>

text \<open>
  What \<^verbatim>\<open>async_setup_entry\<close> reads of the config entry: its id, the configured
  VM and container identifiers (\<^verbatim>\<open>data[CONF_QEMU]\<close>, \<^verbatim>\<open>data[CONF_LXC]\<close>),
  and the runtime data (\<^verbatim>\<open>runtime_data[COORDINATORS]\<close>,
  \<^verbatim>\<open>runtime_data[PROXMOX_CLIENT]\<close>). An identifier is the text the f-strings
  format it to.
\<close>

record 'c config_entry =
  entry_id :: string
  conf_qemu :: "string list"
  conf_lxc :: "string list"
  coordinators :: "string \<rightharpoonup> coordinator"
  runtime_client :: 'c

text \<open>
  The first loop: one iteration per configured VM identifier, \<^verbatim>\<open>selects\<close> the
  list built so far. \<^verbatim>\<open>device_info\<close> is the helper of the package's
  \<^verbatim>\<open>__init__.py\<close>, called with the API category and the resource id.
\<close>

fun qemu_loop ::
  "(string \<Rightarrow> string \<Rightarrow> 'd) \<Rightarrow> enum \<Rightarrow> ProxmoxType \<Rightarrow> 'c config_entry \<Rightarrow> snapshot
     \<Rightarrow> string list \<Rightarrow> ('d, 'c) ProxmoxHASelectEntity list \<Rightarrow> ('d, 'c) ProxmoxHASelectEntity list" where
  "qemu_loop device_info ProxmoxHAState PT entry ha_resources [] selects = selects"
| "qemu_loop device_info ProxmoxHAState PT entry ha_resources (vm_id # rest) selects =
     (let sid = ''vm:'' @ vm_id in
      if ha_resources sid = None then
        qemu_loop device_info ProxmoxHAState PT entry ha_resources rest selects
      else if coordinators entry (QEMU PT @ ''_'' @ vm_id) = None then
        qemu_loop device_info ProxmoxHAState PT entry ha_resources rest selects
      else
        qemu_loop device_info ProxmoxHAState PT entry ha_resources rest
          (selects @
             [\<lparr> unique_id = entry_id entry @ ''_'' @ vm_id @ ''_ha_state'',
                entity_description = PROXMOX_SELECT_HA_STATE ProxmoxHAState,
                attr_device_info = device_info (QEMU PT) vm_id,
                proxmox_client = runtime_client entry,
                entity_sid = sid \<rparr>]))"

text \<open>The second loop, over the configured container identifiers.\<close>

fun lxc_loop ::
  "(string \<Rightarrow> string \<Rightarrow> 'd) \<Rightarrow> enum \<Rightarrow> ProxmoxType \<Rightarrow> 'c config_entry \<Rightarrow> snapshot
     \<Rightarrow> string list \<Rightarrow> ('d, 'c) ProxmoxHASelectEntity list \<Rightarrow> ('d, 'c) ProxmoxHASelectEntity list" where
  "lxc_loop device_info ProxmoxHAState PT entry ha_resources [] selects = selects"
| "lxc_loop device_info ProxmoxHAState PT entry ha_resources (ct_id # rest) selects =
     (let sid = ''ct:'' @ ct_id in
      if ha_resources sid = None then
        lxc_loop device_info ProxmoxHAState PT entry ha_resources rest selects
      else if coordinators entry (LXC PT @ ''_'' @ ct_id) = None then
        lxc_loop device_info ProxmoxHAState PT entry ha_resources rest selects
      else
        lxc_loop device_info ProxmoxHAState PT entry ha_resources rest
          (selects @
             [\<lparr> unique_id = entry_id entry @ ''_'' @ ct_id @ ''_ha_state'',
                entity_description = PROXMOX_SELECT_HA_STATE ProxmoxHAState,
                attr_device_info = device_info (LXC PT) ct_id,
                proxmox_client = runtime_client entry,
                entity_sid = sid \<rparr>]))"

text \<open>
  The result is the list \<^verbatim>\<open>async_add_entities\<close> is called with, or
  \<^const>\<open>None\<close> when the function returns before calling it.
\<close>

definition async_setup_entry ::
  "(string \<Rightarrow> string \<Rightarrow> 'd) \<Rightarrow> enum \<Rightarrow> ProxmoxType \<Rightarrow> 'c config_entry
     \<Rightarrow> ('d, 'c) ProxmoxHASelectEntity list option" where
  "async_setup_entry device_info ProxmoxHAState PT entry =
     (case coordinators entry (Resources PT @ ''_ha'') of
        None \<Rightarrow> None
      | Some ha_coordinator \<Rightarrow>
          (case data ha_coordinator of
             None \<Rightarrow> None
           | Some ha_resources \<Rightarrow>
               Some (lxc_loop device_info ProxmoxHAState PT entry ha_resources (conf_lxc entry)
                       (qemu_loop device_info ProxmoxHAState PT entry ha_resources
                          (conf_qemu entry) []))))"

section \<open>The HA coordinator\<close>

text \<open>
  \<^verbatim>\<open>coordinator.py\<close> is not among the sources; only its tests are. The
  definitions of this section follow the specification's description of the payload
  normalizer and of the coordinator's refresh.
\<close>

subsection \<open>Payload normalizer\<close>

text \<open>
  Modelled from the spec: the list of entries of a raw response. If the response
  is a mapping containing the key \<^verbatim>\<open>"data"\<close>, that key's value is the list;
  otherwise the response itself is. The spec gives responses the shape of a list or of
  a mapping holding one; a value of any other shape has no entries here.
\<close>

fun as_list :: "json \<Rightarrow> json list" where
  "as_list (JList xs) = xs"
| "as_list _ = []"

definition response_list :: "json \<Rightarrow> json list" where
  "response_list raw =
     (case raw of
        JDict kv \<Rightarrow> (case map_of kv ''data'' of Some v \<Rightarrow> as_list v | None \<Rightarrow> as_list raw)
      | _ \<Rightarrow> as_list raw)"

text \<open>
  Modelled from the spec: the recognized resource-type prefixes, \<^verbatim>\<open>vm:\<close> and
  \<^verbatim>\<open>ct:\<close>, and the prefix a \<^verbatim>\<open>sid\<close> begins with, if any.
\<close>

definition resource_types :: "string list" where
  "resource_types = [''vm'', ''ct'']"

definition sid_type :: "string \<Rightarrow> string option" where
  "sid_type s = find (\<lambda>t. prefix (t @ '':'') s) resource_types"

text \<open>
  Modelled from the spec: \<^verbatim>\<open>vmid\<close> is parsed from the numeric suffix of
  \<^verbatim>\<open>sid\<close>: a non-empty run of decimal digits. A suffix that is not one makes
  the entry malformed.
\<close>

definition is_digit :: "char \<Rightarrow> bool" where
  "is_digit c = (c \<in> set ''0123456789'')"

definition digit_value :: "char \<Rightarrow> int" where
  "digit_value c = int (of_char c) - 48"

definition parse_vmid :: "string \<Rightarrow> int option" where
  "parse_vmid s =
     (if s \<noteq> [] \<and> list_all is_digit s
      then Some (foldl (\<lambda>n c. 10 * n + digit_value c) 0 s)
      else None)"

text \<open>
  Modelled from the spec: one list element. An element that is not a mapping, or
  whose \<^verbatim>\<open>sid\<close> does not begin with a recognized prefix followed by
  \<^verbatim>\<open>:\<close>, or is otherwise malformed, gives \<^const>\<open>None\<close>: it is dropped, never
  an error. \<^verbatim>\<open>type\<close> is the prefix, the optional metadata is passed through. The
  spec names no state for an accepted entry without a \<^verbatim>\<open>state\<close> string; the
  model gives it the empty string.
\<close>

fun parse_entry :: "json \<Rightarrow> ProxmoxHAResourceData option" where
  "parse_entry (JDict kv) =
     (case map_of kv ''sid'' of
        Some (JStr s) \<Rightarrow>
          (case sid_type s of
             None \<Rightarrow> None
           | Some t \<Rightarrow>
               (case parse_vmid (drop (length t + 1) s) of
                  None \<Rightarrow> None
                | Some n \<Rightarrow>
                    Some \<lparr> sid = s,
                           type = t,
                           vmid = n,
                           state = (case map_of kv ''state'' of Some (JStr v) \<Rightarrow> v | _ \<Rightarrow> []),
                           group = map_of kv ''group'',
                           status = map_of kv ''status'',
                           request_state = map_of kv ''request_state'',
                           max_relocate = map_of kv ''max_relocate'',
                           max_restart = map_of kv ''max_restart'',
                           digest = map_of kv ''digest'' \<rparr>))
      | _ \<Rightarrow> None)"
| "parse_entry _ = None"

text \<open>
  Modelled from the spec: the normalizer iterates the list elements and builds the
  mapping from \<^verbatim>\<open>sid\<close> to record; a later entry with the same
  \<^verbatim>\<open>sid\<close> replaces an earlier one.
\<close>

fun normalize_loop :: "json list \<Rightarrow> snapshot \<Rightarrow> snapshot" where
  "normalize_loop [] result = result"
| "normalize_loop (item # rest) result =
     (case parse_entry item of
        None \<Rightarrow> normalize_loop rest result
      | Some resource \<Rightarrow> normalize_loop rest (result(sid resource \<mapsto> resource)))"

definition normalize :: "json \<Rightarrow> snapshot" where
  "normalize raw = normalize_loop (response_list raw) Map.empty"

subsection \<open>Refresh\<close>

text \<open>
  What one call of \<^verbatim>\<open>poll_api\<close> does: it returns a raw response, or raises
  an authentication failure (\<^verbatim>\<open>ConfigEntryAuthFailed\<close>), the generic fetch
  failure with its message (\<^verbatim>\<open>UpdateFailed\<close>, which is also how the
  endpoint's absence shows), or some other exception.
\<close>

datatype poll_result =
    PollReturned json
  | PollAuthFailed
  | PollUpdateFailed string
  | PollOtherException string

text \<open>What the coordinator's update method lets through to the platform.\<close>

datatype update_error =
    ConfigEntryAuthFailed
  | UnexpectedException string

text \<open>
  Modelled from the spec: the HA coordinator's update method. A returned response
  goes through the normalizer; an authentication failure propagates; the
  feature-unavailable or generic fetch failure is not fatal and gives the empty mapping;
  any other exception propagates.
\<close>

definition async_update_data :: "poll_result \<Rightarrow> update_error + snapshot" where
  "async_update_data poll =
     (case poll of
        PollReturned raw \<Rightarrow> Inr (normalize raw)
      | PollAuthFailed \<Rightarrow> Inl ConfigEntryAuthFailed
      | PollUpdateFailed msg \<Rightarrow> Inr Map.empty
      | PollOtherException e \<Rightarrow> Inl (UnexpectedException e))"

text \<open>
  The coordinator with the calls made of the config entry's
  \<^verbatim>\<open>async_start_reauth\<close>, each with the \<^verbatim>\<open>hass\<close> object it was given.
\<close>

record 'h refresh_state =
  ha_coord :: coordinator
  start_reauth_calls :: "'h list"

text \<open>
  Modelled from the spec: one refresh. On success the snapshot is replaced by the
  update method's result and the update is marked successful. An authentication
  failure marks the update unsuccessful, keeps the previous snapshot and triggers the
  platform's re-authentication flow with the active \<^verbatim>\<open>hass\<close>; any other
  propagated exception marks the update unsuccessful and keeps the previous snapshot.
\<close>

definition async_refresh :: "'h \<Rightarrow> poll_result \<Rightarrow> 'h refresh_state \<Rightarrow> 'h refresh_state" where
  "async_refresh hass poll st =
     (case async_update_data poll of
        Inr result \<Rightarrow>
          st\<lparr>ha_coord := \<lparr>data = Some result, last_update_success = True\<rparr>\<rparr>
      | Inl ConfigEntryAuthFailed \<Rightarrow>
          st\<lparr>ha_coord := (ha_coord st)\<lparr>last_update_success := False\<rparr>,
             start_reauth_calls := start_reauth_calls st @ [hass]\<rparr>
      | Inl (UnexpectedException e) \<Rightarrow>
          st\<lparr>ha_coord := (ha_coord st)\<lparr>last_update_success := False\<rparr>\<rparr>)"

section \<open>Concrete instances\<close>

text \<open>
  Modelled from the spec: the members the spec's data model lists for the
  enumeration \<^verbatim>\<open>ProxmoxHAState\<close> (started, stopped, disabled, ignored,
  migrate); the tests confirm \<^verbatim>\<open>STARTED\<close> and \<^verbatim>\<open>STOPPED\<close>. It
  instantiates the enumeration parameter in the concrete instances below.
\<close>

definition ProxmoxHAState_members :: enum where
  "ProxmoxHAState_members =
     [(''STARTED'', ''started''), (''STOPPED'', ''stopped''), (''DISABLED'', ''disabled''),
      (''IGNORED'', ''ignored''), (''MIGRATE'', ''migrate'')]"

text \<open>\<^verbatim>\<open>_build_ha_resource\<close> of \<^verbatim>\<open>tests/test_select.py\<close>.\<close>

definition build_ha_resource :: "string \<Rightarrow> int \<Rightarrow> string \<Rightarrow> ProxmoxHAResourceData" where
  "build_ha_resource s n st =
     \<lparr> sid = s,
       type = takeWhile (\<lambda>c. c \<noteq> CHR '':'') s,
       vmid = n,
       state = st,
       group = None,
       status = None,
       request_state = None,
       max_relocate = None,
       max_restart = None,
       digest = None \<rparr>"

text \<open>
  The entity and the coordinator of \<^verbatim>\<open>_build_select_entity\<close>: the entity for
  \<^verbatim>\<open>vm:101\<close>, the coordinator holding that one resource.
\<close>

definition test_entity :: "(unit, unit) ProxmoxHASelectEntity" where
  "test_entity =
     \<lparr> unique_id = ''test_unique_id'',
       entity_description = PROXMOX_SELECT_HA_STATE ProxmoxHAState_members,
       attr_device_info = (),
       proxmox_client = (),
       entity_sid = ''vm:101'' \<rparr>"

definition test_coordinator :: "string \<Rightarrow> coordinator" where
  "test_coordinator st =
     \<lparr> data = Some [''vm:101'' \<mapsto> build_ha_resource ''vm:101'' 101 st],
       last_update_success = True \<rparr>"

text \<open>A client whose write call returns, or raises the given exception.\<close>

definition test_env :: "exn option \<Rightarrow> (unit, unit) env" where
  "test_env outcome = \<lparr> get_api_client = (\<lambda>c. c), put_api = (\<lambda>proxmox path kwargs. outcome) \<rparr>"

text \<open>The response of \<^verbatim>\<open>test_ha_coordinator_handles_dict_payload\<close>.\<close>

definition test_payload :: json where
  "test_payload =
     JDict [(''data'',
       JList [JDict [(''sid'', JStr ''vm:101''), (''state'', JStr ''started'')],
              JDict [(''sid'', JStr ''ct:100''), (''state'', JStr ''stopped'')],
              JDict [(''sid'', JStr ''node:abc''), (''state'', JStr ''started'')],
              JStr ''garbage''])]"

text \<open>
  The config entry of \<^verbatim>\<open>test_async_setup_entry_creates_entities_for_ha_resources\<close>
  reduced to the scenario's identifiers: VM 101, container 100, the HA coordinator
  holding both, and a per-resource coordinator for each, with one choice of values for
  the \<^verbatim>\<open>ProxmoxType\<close> parameter.
\<close>

definition test_types :: ProxmoxType where
  "test_types = \<lparr> QEMU = ''qemu'', LXC = ''lxc'', Resources = ''resources'' \<rparr>"

definition test_ha_coordinator :: coordinator where
  "test_ha_coordinator =
     \<lparr> data = Some [''vm:101'' \<mapsto> build_ha_resource ''vm:101'' 101 ''started'',
                     ''ct:100'' \<mapsto> build_ha_resource ''ct:100'' 100 ''started''],
       last_update_success = True \<rparr>"

definition test_config_entry :: "unit config_entry" where
  "test_config_entry =
     \<lparr> entry_id = ''entry'',
       conf_qemu = [''101''],
       conf_lxc = [''100''],
       coordinators =
         [''resources_ha'' \<mapsto> test_ha_coordinator,
          ''qemu_101'' \<mapsto> \<lparr>data = None, last_update_success = True\<rparr>,
          ''lxc_100'' \<mapsto> \<lparr>data = None, last_update_success = True\<rparr>],
       runtime_client = () \<rparr>"

subsection \<open>The normalizer's contract\<close>

text \<open>
  The elements the normalizer's contract excludes: those that are not a mapping, and
  those whose \<^verbatim>\<open>sid\<close> does not begin with a recognized resource-type prefix
  followed by \<^verbatim>\<open>:\<close>.
\<close>

definition excluded :: "json \<Rightarrow> bool" where
  "excluded item =
     (case item of
        JDict kv \<Rightarrow>
          (case map_of kv ''sid'' of
             Some (JStr s) \<Rightarrow> \<not> list_ex (\<lambda>t. prefix (t @ '':'') s) resource_types
           | _ \<Rightarrow> True)
      | _ \<Rightarrow> True)"

section \<open>Properties of the select entity\<close>

text \<open>A piece of a formatted message is contained in the message.\<close>

lemma sublist_at_end: "sublist xs (ps @ xs)"
  unfolding sublist_def by (intro exI [of _ ps] exI [of _ "[]"]) simp

lemma sublist_inside: "sublist xs (ps @ xs @ ss)"
  unfolding sublist_def by blast

text \<open>
  C2. The entity is available if and only if the base entity is available, the
  coordinator has a snapshot, and the snapshot contains the entity's sid. In
  particular the entity is unavailable whenever the snapshot lacks its sid, even with
  the base entity available.
\<close>

theorem available_iff:
  "(available super_available self coord
      \<longleftrightarrow> super_available \<and> data coord \<noteq> None \<and> entity_sid self \<in> dom (the (data coord)))
   \<and> (data coord = Some d \<and> entity_sid self \<notin> dom d \<longrightarrow> \<not> available True self coord)"
  by (auto simp: available_def split: option.splits)

theorem available_iff_witness:
  "data (test_coordinator ''started'') = Some [''vm:101'' \<mapsto> build_ha_resource ''vm:101'' 101 ''started'']
   \<and> entity_sid (test_entity\<lparr>entity_sid := ''vm:999''\<rparr>)
        \<notin> dom [''vm:101'' \<mapsto> build_ha_resource ''vm:101'' 101 ''started'']
   \<and> \<not> available True (test_entity\<lparr>entity_sid := ''vm:999''\<rparr>) (test_coordinator ''started'')
   \<and> available True test_entity (test_coordinator ''started'')"
  using available_iff [of True "test_entity\<lparr>entity_sid := ''vm:999''\<rparr>" "test_coordinator ''started''"
      "[''vm:101'' \<mapsto> build_ha_resource ''vm:101'' 101 ''started'']"]
    available_iff [of True test_entity "test_coordinator ''started''"
      "[''vm:101'' \<mapsto> build_ha_resource ''vm:101'' 101 ''started'']"]
  by (simp add: test_coordinator_def test_entity_def)

text \<open>
  C6. \<^verbatim>\<open>current_option\<close> is \<^verbatim>\<open>None\<close> exactly when the coordinator has no
  snapshot or the snapshot does not contain the entity's sid; otherwise it is the
  state field of the snapshot's record for that sid, unchanged. It is a function of
  the coordinator's current state: nothing is kept in the entity.
\<close>

theorem current_option_spec:
  "(current_option self coord = None
      \<longleftrightarrow> data coord = None \<or> entity_sid self \<notin> dom (the (data coord)))
   \<and> (data coord = Some d \<and> d (entity_sid self) = Some resource
        \<longrightarrow> current_option self coord = Some (state resource))"
  by (auto simp: current_option_def split: option.splits)

theorem current_option_spec_witness:
  "data (test_coordinator ''stopped'') = Some [''vm:101'' \<mapsto> build_ha_resource ''vm:101'' 101 ''stopped'']
   \<and> [''vm:101'' \<mapsto> build_ha_resource ''vm:101'' 101 ''stopped''] (entity_sid test_entity)
        = Some (build_ha_resource ''vm:101'' 101 ''stopped'')
   \<and> current_option test_entity (test_coordinator ''stopped'') = Some ''stopped''"
  using current_option_spec [of test_entity "test_coordinator ''stopped''"
      "[''vm:101'' \<mapsto> build_ha_resource ''vm:101'' 101 ''stopped'']"
      "build_ha_resource ''vm:101'' 101 ''stopped''"]
  by (simp add: test_coordinator_def test_entity_def build_ha_resource_def)

text \<open>
  C5. An option that is not a value of the enumeration raises a
  \<^verbatim>\<open>HomeAssistantError\<close> whose message contains the rejected value, and the
  method stops there: no call is made, the state is as before.
\<close>

theorem invalid_option_rejected:
  assumes "option \<notin> set (state_values ProxmoxHAState)"
  shows "fst (async_select_option env ProxmoxHAState self option w)
           = Inl (HomeAssistantError (''Invalid HA state: '' @ option) None)
         \<and> sublist option (''Invalid HA state: '' @ option)
         \<and> snd (async_select_option env ProxmoxHAState self option w) = w"
proof -
  have "sublist option (''Invalid HA state: '' @ option)"
    by (rule sublist_at_end)
  with assms show ?thesis
    by (simp add: async_select_option_def)
qed

theorem invalid_option_rejected_witness:
  "''invalid_state'' \<notin> set (state_values ProxmoxHAState_members)
   \<and> fst (async_select_option (test_env None) ProxmoxHAState_members test_entity ''invalid_state''
            \<lparr>coordinator_state = test_coordinator ''started'', calls = []\<rparr>)
       = Inl (HomeAssistantError ''Invalid HA state: invalid_state'' None)
   \<and> calls (snd (async_select_option (test_env None) ProxmoxHAState_members test_entity
                    ''invalid_state''
                    \<lparr>coordinator_state = test_coordinator ''started'', calls = []\<rparr>)) = []"
proof -
  have h: "''invalid_state'' \<notin> set (state_values ProxmoxHAState_members)"
    by (simp add: state_values_def ProxmoxHAState_members_def)
  show ?thesis
    using h invalid_option_rejected [OF h, of "test_env None" test_entity
        "\<lparr>coordinator_state = test_coordinator ''started'', calls = []\<rparr>"]
    by simp
qed

text \<open>
  C3. A successful selection of a valid option issues exactly one write call, to
  \<^verbatim>\<open>cluster/ha/resources/<sid>\<close> with \<^verbatim>\<open>state\<close> set to the option, and
  after it exactly one coordinator refresh request. Whatever the outcome, the method
  leaves the coordinator's snapshot as it found it.
\<close>

theorem select_option_success:
  "(option \<in> set (state_values ProxmoxHAState)
      \<and> put_api env (get_api_client env (proxmox_client self))
            (''cluster/ha/resources/'' @ entity_sid self) [(''state'', option)] = None
    \<longrightarrow> fst (async_select_option env ProxmoxHAState self option w) = Inr ()
        \<and> calls (snd (async_select_option env ProxmoxHAState self option w))
            = calls w
              @ [PutApi (get_api_client env (proxmox_client self))
                   (''cluster/ha/resources/'' @ entity_sid self) [(''state'', option)],
                 LogDebug (''Set HA state for '' @ entity_sid self @ '' to '' @ option),
                 RequestRefresh])
   \<and> coordinator_state (snd (async_select_option env ProxmoxHAState self option w))
       = coordinator_state w"
  by (auto simp: async_select_option_def Let_def split: option.splits exn.splits)

theorem select_option_success_witness:
  "''stopped'' \<in> set (state_values ProxmoxHAState_members)
   \<and> put_api (test_env None) (get_api_client (test_env None) (proxmox_client test_entity))
        (''cluster/ha/resources/'' @ entity_sid test_entity) [(''state'', ''stopped'')] = None
   \<and> async_select_option (test_env None) ProxmoxHAState_members test_entity ''stopped''
        \<lparr>coordinator_state = test_coordinator ''started'', calls = []\<rparr>
       = (Inr (),
          \<lparr>coordinator_state = test_coordinator ''started'',
            calls = [PutApi () ''cluster/ha/resources/vm:101'' [(''state'', ''stopped'')],
                     LogDebug ''Set HA state for vm:101 to stopped'',
                     RequestRefresh]\<rparr>)"
proof -
  have h: "''stopped'' \<in> set (state_values ProxmoxHAState_members)"
    by (simp add: state_values_def ProxmoxHAState_members_def)
  have p: "put_api (test_env None) (get_api_client (test_env None) (proxmox_client test_entity))
             (''cluster/ha/resources/'' @ entity_sid test_entity) [(''state'', ''stopped'')] = None"
    by (simp add: test_env_def)
  show ?thesis
    using h p select_option_success [of "''stopped''" ProxmoxHAState_members "test_env None"
        test_entity "\<lparr>coordinator_state = test_coordinator ''started'', calls = []\<rparr>"]
    by (simp add: test_env_def test_entity_def prod_eq_iff world.equality)
qed

text \<open>
  C10. The options the entity description publishes and the values the method
  validates against are the same list, computed from the same enumeration. So for an
  option taken from the description the invalid-value branch is not taken: the error
  of that branch is not the result, and the write call is issued.
\<close>

theorem published_option_passes_validation:
  assumes "option \<in> set (options (PROXMOX_SELECT_HA_STATE ProxmoxHAState))"
  shows "option \<in> set (state_values ProxmoxHAState)
         \<and> fst (async_select_option env ProxmoxHAState self option w)
             \<noteq> Inl (HomeAssistantError (''Invalid HA state: '' @ option) None)
         \<and> (\<exists>rest. calls (snd (async_select_option env ProxmoxHAState self option w))
               = calls w
                 @ PutApi (get_api_client env (proxmox_client self))
                     (''cluster/ha/resources/'' @ entity_sid self) [(''state'', option)] # rest)"
proof -
  from assms have valid: "option \<in> set (state_values ProxmoxHAState)"
    by (simp add: PROXMOX_SELECT_HA_STATE_def)
  then show ?thesis
    by (auto simp: async_select_option_def Let_def split: option.splits exn.splits)
qed

theorem published_option_passes_validation_witness:
  "''migrate'' \<in> set (options (PROXMOX_SELECT_HA_STATE ProxmoxHAState_members))
   \<and> fst (async_select_option (test_env (Some (ResourceException ''500 Internal Server Error'')))
            ProxmoxHAState_members test_entity ''migrate''
            \<lparr>coordinator_state = test_coordinator ''started'', calls = []\<rparr>)
       \<noteq> Inl (HomeAssistantError ''Invalid HA state: migrate'' None)"
proof -
  have h: "''migrate'' \<in> set (options (PROXMOX_SELECT_HA_STATE ProxmoxHAState_members))"
    by (simp add: PROXMOX_SELECT_HA_STATE_def state_values_def ProxmoxHAState_members_def)
  show ?thesis
    using h published_option_passes_validation [OF h,
        of "test_env (Some (ResourceException ''500 Internal Server Error''))" test_entity
           "\<lparr>coordinator_state = test_coordinator ''started'', calls = []\<rparr>"]
    by simp
qed

text \<open>
  What both handlers of a failing write call do. When the write call raises a
  \<^verbatim>\<open>ResourceException\<close> or a \<^verbatim>\<open>ConnectTimeout\<close>, the method raises one
  \<^verbatim>\<open>HomeAssistantError\<close> with the original exception as its cause, its message
  contains the sid, and the only call made is the write call: no refresh is requested.
  The message of the \<^verbatim>\<open>ResourceException\<close> branch also contains the option.
\<close>

lemma write_failure_wrapped:
  assumes "option \<in> set (state_values ProxmoxHAState)"
    and "put_api env (get_api_client env (proxmox_client self))
           (''cluster/ha/resources/'' @ entity_sid self) [(''state'', option)] = Some cause"
    and "cause = ResourceException e \<or> cause = ConnectTimeout e"
  shows "\<exists>msg. fst (async_select_option env ProxmoxHAState self option w)
                  = Inl (HomeAssistantError msg (Some cause))
               \<and> sublist (entity_sid self) msg
               \<and> (cause = ResourceException e \<longrightarrow> sublist option msg)"
    and "calls (snd (async_select_option env ProxmoxHAState self option w))
           = calls w
             @ [PutApi (get_api_client env (proxmox_client self))
                  (''cluster/ha/resources/'' @ entity_sid self) [(''state'', option)]]"
proof -
  have sid_r: "sublist (entity_sid self)
      (''Failed to set HA state for '' @ entity_sid self @ '' to '' @ option @ '': '' @ e)"
    by (rule sublist_inside)
  have opt_r: "sublist option
      ((''Failed to set HA state for '' @ entity_sid self @ '' to '') @ option @ '': '' @ e)"
    by (rule sublist_inside)
  have sid_t: "sublist (entity_sid self)
      (''Timeout setting HA state for '' @ entity_sid self @ '': '' @ e)"
    by (rule sublist_inside)
  from assms(3) show "\<exists>msg. fst (async_select_option env ProxmoxHAState self option w)
                  = Inl (HomeAssistantError msg (Some cause))
               \<and> sublist (entity_sid self) msg
               \<and> (cause = ResourceException e \<longrightarrow> sublist option msg)"
  proof
    assume c: "cause = ResourceException e"
    with assms(1,2) have "fst (async_select_option env ProxmoxHAState self option w)
        = Inl (HomeAssistantError
            (''Failed to set HA state for '' @ entity_sid self @ '' to '' @ option @ '': '' @ e)
            (Some cause))"
      by (simp add: async_select_option_def Let_def)
    with sid_r opt_r show ?thesis by auto
  next
    assume c: "cause = ConnectTimeout e"
    with assms(1,2) have "fst (async_select_option env ProxmoxHAState self option w)
        = Inl (HomeAssistantError
            (''Timeout setting HA state for '' @ entity_sid self @ '': '' @ e) (Some cause))"
      by (simp add: async_select_option_def Let_def)
    with sid_t c show ?thesis by auto
  qed
  from assms show "calls (snd (async_select_option env ProxmoxHAState self option w))
           = calls w
             @ [PutApi (get_api_client env (proxmox_client self))
                  (''cluster/ha/resources/'' @ entity_sid self) [(''state'', option)]]"
    by (auto simp: async_select_option_def Let_def)
qed

text \<open>
  C4. The timeout branch formats its message from the sid and the exception's text
  only. For the entity of \<^verbatim>\<open>vm:101\<close>, the option \<^verbatim>\<open>stopped\<close> and a
  write call that times out, the message raised does not contain the attempted state.
\<close>

theorem timeout_message_omits_option:
  "async_select_option (test_env (Some (ConnectTimeout ''connection to 192.168.10.101 timed out'')))
       ProxmoxHAState_members test_entity ''stopped''
       \<lparr>coordinator_state = test_coordinator ''started'', calls = []\<rparr>
     = (Inl (HomeAssistantError
               ''Timeout setting HA state for vm:101: connection to 192.168.10.101 timed out''
               (Some (ConnectTimeout ''connection to 192.168.10.101 timed out''))),
        \<lparr>coordinator_state = test_coordinator ''started'',
          calls = [PutApi () ''cluster/ha/resources/vm:101'' [(''state'', ''stopped'')]]\<rparr>)
   \<and> \<not> sublist ''stopped''
         ''Timeout setting HA state for vm:101: connection to 192.168.10.101 timed out''"
proof -
  have "\<not> sublist ''stopped''
         ''Timeout setting HA state for vm:101: connection to 192.168.10.101 timed out''"
    by code_simp
  then show ?thesis
    by (simp add: async_select_option_def Let_def test_env_def test_entity_def
        state_values_def ProxmoxHAState_members_def)
qed

section \<open>Properties of the platform setup\<close>

text \<open>Each loop appends, in order, one entity for every identifier that passes both tests.\<close>

lemma qemu_loop_filter:
  "qemu_loop device_info ProxmoxHAState PT entry ha_resources vm_ids selects =
     selects @
     map (\<lambda>vm_id.
            \<lparr> unique_id = entry_id entry @ ''_'' @ vm_id @ ''_ha_state'',
              entity_description = PROXMOX_SELECT_HA_STATE ProxmoxHAState,
              attr_device_info = device_info (QEMU PT) vm_id,
              proxmox_client = runtime_client entry,
              entity_sid = ''vm:'' @ vm_id \<rparr>)
       (filter (\<lambda>vm_id. ''vm:'' @ vm_id \<in> dom ha_resources
                         \<and> QEMU PT @ ''_'' @ vm_id \<in> dom (coordinators entry)) vm_ids)"
  by (induction vm_ids arbitrary: selects) (auto simp: Let_def)

lemma lxc_loop_filter:
  "lxc_loop device_info ProxmoxHAState PT entry ha_resources ct_ids selects =
     selects @
     map (\<lambda>ct_id.
            \<lparr> unique_id = entry_id entry @ ''_'' @ ct_id @ ''_ha_state'',
              entity_description = PROXMOX_SELECT_HA_STATE ProxmoxHAState,
              attr_device_info = device_info (LXC PT) ct_id,
              proxmox_client = runtime_client entry,
              entity_sid = ''ct:'' @ ct_id \<rparr>)
       (filter (\<lambda>ct_id. ''ct:'' @ ct_id \<in> dom ha_resources
                         \<and> LXC PT @ ''_'' @ ct_id \<in> dom (coordinators entry)) ct_ids)"
  by (induction ct_ids arbitrary: selects) (auto simp: Let_def)

text \<open>
  C9. With an HA coordinator that has a snapshot, setup adds exactly one entity for
  each configured VM identifier whose \<^verbatim>\<open>vm:\<close> sid is in the snapshot and whose
  QEMU coordinator is in the coordinator mapping, then one for each configured
  container identifier whose \<^verbatim>\<open>ct:\<close> sid is in the snapshot and whose LXC
  coordinator is in the mapping, and nothing else. In the scenario (VM 101,
  container 100, both in the snapshot as started, both with a coordinator) the
  entities are two, with unique ids \<^verbatim>\<open>{entry_id}_101_ha_state\<close> and
  \<^verbatim>\<open>{entry_id}_100_ha_state\<close>, and both report \<^verbatim>\<open>started\<close>.
\<close>

theorem setup_creates_entities:
  "async_setup_entry device_info ProxmoxHAState PT entry =
     (case coordinators entry (Resources PT @ ''_ha'') of
        None \<Rightarrow> None
      | Some ha \<Rightarrow>
          (case data ha of
             None \<Rightarrow> None
           | Some snap \<Rightarrow>
               Some
                 (map (\<lambda>vm_id.
                         \<lparr> unique_id = entry_id entry @ ''_'' @ vm_id @ ''_ha_state'',
                           entity_description = PROXMOX_SELECT_HA_STATE ProxmoxHAState,
                           attr_device_info = device_info (QEMU PT) vm_id,
                           proxmox_client = runtime_client entry,
                           entity_sid = ''vm:'' @ vm_id \<rparr>)
                    (filter (\<lambda>vm_id. ''vm:'' @ vm_id \<in> dom snap
                                      \<and> QEMU PT @ ''_'' @ vm_id \<in> dom (coordinators entry))
                       (conf_qemu entry))
                  @
                  map (\<lambda>ct_id.
                         \<lparr> unique_id = entry_id entry @ ''_'' @ ct_id @ ''_ha_state'',
                           entity_description = PROXMOX_SELECT_HA_STATE ProxmoxHAState,
                           attr_device_info = device_info (LXC PT) ct_id,
                           proxmox_client = runtime_client entry,
                           entity_sid = ''ct:'' @ ct_id \<rparr>)
                    (filter (\<lambda>ct_id. ''ct:'' @ ct_id \<in> dom snap
                                      \<and> LXC PT @ ''_'' @ ct_id \<in> dom (coordinators entry))
                       (conf_lxc entry)))))
   \<and> (coordinators entry (Resources PT @ ''_ha'') = Some ha_coordinator
        \<and> data ha_coordinator = Some ha_resources
        \<and> conf_qemu entry = [''101''] \<and> conf_lxc entry = [''100'']
        \<and> ha_resources ''vm:101'' = Some vm \<and> state vm = ''started''
        \<and> ha_resources ''ct:100'' = Some ct \<and> state ct = ''started''
        \<and> QEMU PT @ ''_101'' \<in> dom (coordinators entry)
        \<and> LXC PT @ ''_100'' \<in> dom (coordinators entry)
      \<longrightarrow> (\<exists>e1 e2.
             async_setup_entry device_info ProxmoxHAState PT entry = Some [e1, e2]
             \<and> unique_id e1 = entry_id entry @ ''_101_ha_state''
             \<and> unique_id e2 = entry_id entry @ ''_100_ha_state''
             \<and> current_option e1 ha_coordinator = Some ''started''
             \<and> current_option e2 ha_coordinator = Some ''started''))"
proof (intro conjI impI)
  show general: "async_setup_entry device_info ProxmoxHAState PT entry =
     (case coordinators entry (Resources PT @ ''_ha'') of
        None \<Rightarrow> None
      | Some ha \<Rightarrow>
          (case data ha of
             None \<Rightarrow> None
           | Some snap \<Rightarrow>
               Some
                 (map (\<lambda>vm_id.
                         \<lparr> unique_id = entry_id entry @ ''_'' @ vm_id @ ''_ha_state'',
                           entity_description = PROXMOX_SELECT_HA_STATE ProxmoxHAState,
                           attr_device_info = device_info (QEMU PT) vm_id,
                           proxmox_client = runtime_client entry,
                           entity_sid = ''vm:'' @ vm_id \<rparr>)
                    (filter (\<lambda>vm_id. ''vm:'' @ vm_id \<in> dom snap
                                      \<and> QEMU PT @ ''_'' @ vm_id \<in> dom (coordinators entry))
                       (conf_qemu entry))
                  @
                  map (\<lambda>ct_id.
                         \<lparr> unique_id = entry_id entry @ ''_'' @ ct_id @ ''_ha_state'',
                           entity_description = PROXMOX_SELECT_HA_STATE ProxmoxHAState,
                           attr_device_info = device_info (LXC PT) ct_id,
                           proxmox_client = runtime_client entry,
                           entity_sid = ''ct:'' @ ct_id \<rparr>)
                    (filter (\<lambda>ct_id. ''ct:'' @ ct_id \<in> dom snap
                                      \<and> LXC PT @ ''_'' @ ct_id \<in> dom (coordinators entry))
                       (conf_lxc entry)))))"
    by (simp add: async_setup_entry_def qemu_loop_filter lxc_loop_filter
        split: option.splits)
  assume scenario:
    "coordinators entry (Resources PT @ ''_ha'') = Some ha_coordinator
      \<and> data ha_coordinator = Some ha_resources
      \<and> conf_qemu entry = [''101''] \<and> conf_lxc entry = [''100'']
      \<and> ha_resources ''vm:101'' = Some vm \<and> state vm = ''started''
      \<and> ha_resources ''ct:100'' = Some ct \<and> state ct = ''started''
      \<and> QEMU PT @ ''_101'' \<in> dom (coordinators entry)
      \<and> LXC PT @ ''_100'' \<in> dom (coordinators entry)"
  then show "\<exists>e1 e2.
             async_setup_entry device_info ProxmoxHAState PT entry = Some [e1, e2]
             \<and> unique_id e1 = entry_id entry @ ''_101_ha_state''
             \<and> unique_id e2 = entry_id entry @ ''_100_ha_state''
             \<and> current_option e1 ha_coordinator = Some ''started''
             \<and> current_option e2 ha_coordinator = Some ''started''"
    unfolding general by (simp add: current_option_def domIff)
qed

theorem setup_creates_entities_witness:
  "coordinators test_config_entry (Resources test_types @ ''_ha'') = Some test_ha_coordinator
   \<and> data test_ha_coordinator
       = Some [''vm:101'' \<mapsto> build_ha_resource ''vm:101'' 101 ''started'',
               ''ct:100'' \<mapsto> build_ha_resource ''ct:100'' 100 ''started'']
   \<and> map unique_id
       (the (async_setup_entry (\<lambda>category resource_id. ()) ProxmoxHAState_members test_types
               test_config_entry))
       = [''entry_101_ha_state'', ''entry_100_ha_state'']
   \<and> map (\<lambda>e. current_option e test_ha_coordinator)
       (the (async_setup_entry (\<lambda>category resource_id. ()) ProxmoxHAState_members test_types
               test_config_entry))
       = [Some ''started'', Some ''started'']"
proof -
  have c: "coordinators test_config_entry (Resources test_types @ ''_ha'') = Some test_ha_coordinator"
    by (simp add: test_config_entry_def test_types_def)
  have d: "data test_ha_coordinator
       = Some [''vm:101'' \<mapsto> build_ha_resource ''vm:101'' 101 ''started'',
               ''ct:100'' \<mapsto> build_ha_resource ''ct:100'' 100 ''started'']"
    by (simp add: test_ha_coordinator_def)
  have q: "conf_qemu test_config_entry = [''101'']" and l: "conf_lxc test_config_entry = [''100'']"
    by (simp_all add: test_config_entry_def)
  have r1: "[''vm:101'' \<mapsto> build_ha_resource ''vm:101'' 101 ''started'',
             ''ct:100'' \<mapsto> build_ha_resource ''ct:100'' 100 ''started''] ''vm:101''
              = Some (build_ha_resource ''vm:101'' 101 ''started'')"
    and r2: "[''vm:101'' \<mapsto> build_ha_resource ''vm:101'' 101 ''started'',
             ''ct:100'' \<mapsto> build_ha_resource ''ct:100'' 100 ''started''] ''ct:100''
              = Some (build_ha_resource ''ct:100'' 100 ''started'')"
    by simp_all
  have s: "state (build_ha_resource ''vm:101'' 101 ''started'') = ''started''"
      "state (build_ha_resource ''ct:100'' 100 ''started'') = ''started''"
    by (simp_all add: build_ha_resource_def)
  have k: "QEMU test_types @ ''_101'' \<in> dom (coordinators test_config_entry)"
      "LXC test_types @ ''_100'' \<in> dom (coordinators test_config_entry)"
    by (simp_all add: test_config_entry_def test_types_def)
  from setup_creates_entities [of "\<lambda>category resource_id. ()" ProxmoxHAState_members
      test_types test_config_entry test_ha_coordinator
      "[''vm:101'' \<mapsto> build_ha_resource ''vm:101'' 101 ''started'',
        ''ct:100'' \<mapsto> build_ha_resource ''ct:100'' 100 ''started'']"
      "build_ha_resource ''vm:101'' 101 ''started''" "build_ha_resource ''ct:100'' 100 ''started''"]
    c d q l r1 r2 s k
  obtain e1 e2 where
    "async_setup_entry (\<lambda>category resource_id. ()) ProxmoxHAState_members test_types
        test_config_entry = Some [e1, e2]"
    "unique_id e1 = entry_id test_config_entry @ ''_101_ha_state''"
    "unique_id e2 = entry_id test_config_entry @ ''_100_ha_state''"
    "current_option e1 test_ha_coordinator = Some ''started''"
    "current_option e2 test_ha_coordinator = Some ''started''"
    by blast
  with c d show ?thesis
    by (simp add: test_config_entry_def)
qed

section \<open>Properties of the HA coordinator\<close>

lemma sid_type_None:
  "\<not> list_ex (\<lambda>t. prefix (t @ '':'') s) resource_types \<Longrightarrow> sid_type s = None"
  by (simp add: sid_type_def find_None_iff list_ex_iff)

lemma excluded_dropped: "excluded item \<Longrightarrow> parse_entry item = None"
proof (cases item)
  case (JDict kv)
  assume "excluded item"
  with JDict show ?thesis
    by (auto simp: excluded_def sid_type_None split: option.splits json.splits)
qed simp_all

lemma normalize_loop_filter:
  "normalize_loop items result = normalize_loop (filter (\<lambda>item. \<not> excluded item) items) result"
  by (induction items arbitrary: result) (auto simp: excluded_dropped split: option.splits)

text \<open>
  C8. An element that is not a mapping, or whose sid does not begin with a
  recognized prefix followed by a colon, contributes nothing: the normalizer, a total
  function with no error result, gives what it gives for the list without such
  elements. For the response of the test the keys are exactly \<^verbatim>\<open>vm:101\<close> and
  \<^verbatim>\<open>ct:100\<close>, with states \<^verbatim>\<open>started\<close> and \<^verbatim>\<open>stopped\<close>, and that
  is the coordinator's data after the refresh.
\<close>

theorem normalizer_excludes_malformed:
  "(excluded item \<longrightarrow>
      parse_entry item = None
      \<and> normalize_loop (item # rest) result = normalize_loop rest result)
   \<and> normalize raw
       = normalize_loop (filter (\<lambda>item. \<not> excluded item) (response_list raw)) Map.empty
   \<and> dom (normalize test_payload) = {''vm:101'', ''ct:100''}
   \<and> map_option state (normalize test_payload ''vm:101'') = Some ''started''
   \<and> map_option state (normalize test_payload ''ct:100'') = Some ''stopped''
   \<and> data (ha_coord (async_refresh hass (PollReturned test_payload) st))
       = Some (normalize test_payload)
   \<and> last_update_success (ha_coord (async_refresh hass (PollReturned test_payload) st))"
proof (intro conjI impI)
  assume "excluded item"
  then show "parse_entry item = None"
    by (rule excluded_dropped)
  then show "normalize_loop (item # rest) result = normalize_loop rest result"
    by simp
next
  show "normalize raw
       = normalize_loop (filter (\<lambda>item. \<not> excluded item) (response_list raw)) Map.empty"
    unfolding normalize_def by (rule normalize_loop_filter)
next
  show "dom (normalize test_payload) = {''vm:101'', ''ct:100''}"
    by (auto simp: normalize_def test_payload_def response_list_def sid_type_def
        resource_types_def parse_vmid_def is_digit_def digit_value_def)
next
  show "map_option state (normalize test_payload ''vm:101'') = Some ''started''"
    by (simp add: normalize_def test_payload_def response_list_def sid_type_def
        resource_types_def parse_vmid_def is_digit_def digit_value_def)
next
  show "map_option state (normalize test_payload ''ct:100'') = Some ''stopped''"
    by (simp add: normalize_def test_payload_def response_list_def sid_type_def
        resource_types_def parse_vmid_def is_digit_def digit_value_def)
next
  show "data (ha_coord (async_refresh hass (PollReturned test_payload) st))
       = Some (normalize test_payload)"
    by (simp add: async_refresh_def async_update_data_def)
next
  show "last_update_success (ha_coord (async_refresh hass (PollReturned test_payload) st))"
    by (simp add: async_refresh_def async_update_data_def)
qed

theorem normalizer_excludes_malformed_witness:
  "excluded (JDict [(''sid'', JStr ''node:abc''), (''state'', JStr ''started'')])
   \<and> parse_entry (JDict [(''sid'', JStr ''node:abc''), (''state'', JStr ''started'')]) = None
   \<and> excluded (JStr ''garbage'')
   \<and> normalize_loop [JStr ''garbage''] Map.empty = Map.empty"
proof -
  have a: "excluded (JDict [(''sid'', JStr ''node:abc''), (''state'', JStr ''started'')])"
    by (simp add: excluded_def resource_types_def)
  have b: "excluded (JStr ''garbage'')"
    by (simp add: excluded_def)
  note p = normalizer_excludes_malformed
      [of "JDict [(''sid'', JStr ''node:abc''), (''state'', JStr ''started'')]" "[]" Map.empty,
        THEN conjunct1, THEN mp, OF a, THEN conjunct1]
  note q = normalizer_excludes_malformed [of "JStr ''garbage''" "[]" Map.empty,
        THEN conjunct1, THEN mp, OF b, THEN conjunct2]
  have r: "normalize_loop [JStr ''garbage''] Map.empty = Map.empty"
    unfolding q by simp
  from a p b r show ?thesis
    by (intro conjI)
qed

text \<open>
  C1. When the poll raises the feature-unavailable or generic fetch failure, the
  refresh absorbs it: the coordinator's data is the empty mapping, the update counts
  as successful, and no re-authentication is started.
\<close>

theorem feature_absent_absorbed:
  "data (ha_coord (async_refresh hass (PollUpdateFailed msg) st)) = Some Map.empty
   \<and> last_update_success (ha_coord (async_refresh hass (PollUpdateFailed msg) st))
   \<and> start_reauth_calls (async_refresh hass (PollUpdateFailed msg) st) = start_reauth_calls st"
  by (simp add: async_refresh_def async_update_data_def)

text \<open>
  C7. When the poll raises an authentication failure, the update is marked
  unsuccessful, the re-authentication trigger is called exactly once, with the active
  \<^verbatim>\<open>hass\<close>, and the previous snapshot stays.
\<close>

theorem auth_failure_starts_reauth:
  "\<not> last_update_success (ha_coord (async_refresh hass PollAuthFailed st))
   \<and> start_reauth_calls (async_refresh hass PollAuthFailed st) = start_reauth_calls st @ [hass]
   \<and> data (ha_coord (async_refresh hass PollAuthFailed st)) = data (ha_coord st)"
  by (simp add: async_refresh_def async_update_data_def)

end
